theory Spec2Isabelle
  imports Complex_Main
begin

section \<open>C doubles\<close>

text \<open>
  Every number of \<^verbatim>\<open>nztm.c\<close> is a C \<^verbatim>\<open>double\<close>. A double is modelled as a real
  number or one of the three special values of IEEE 754. The special values follow the
  standard: an undefined operation gives \<open>NaN\<close>, a division of a non-zero number by zero
  gives an infinity, every comparison with \<open>NaN\<close> is false.

  Rounding is modelled where the control flow of the program depends on it, and only
  there: in the normalisation of the longitude at the head of \<open>geod_tm\<close>, that is in the
  constant \<open>PI\<close>, in the subtraction \<^verbatim>\<open>dlon = ln - cm\<close> and in the two loops, every
  result is rounded to the nearest double (function \<open>rounded\<close> below), so that the loops
  take in the model the turns they take in the program. Everywhere else arithmetic on
  finite values is exact (no rounding and no overflow), and zero has no sign (it behaves
  as \<open>+0\<close>): the theorems on the series and on the projection say which formula the
  program evaluates and where it divides by zero, not how large a rounding error is.
\<close>

datatype double = Finite real | PInf | MInf | NaN

fun is_finite :: "double \<Rightarrow> bool" where
  "is_finite (Finite x) = True"
| "is_finite PInf = False"
| "is_finite MInf = False"
| "is_finite NaN = False"

fun val :: "double \<Rightarrow> real" where
  "val (Finite x) = x"
| "val PInf = 0"
| "val MInf = 0"
| "val NaN = 0"

instantiation double :: "{zero, one, plus, uminus, minus, times, inverse, ord}"
begin

definition zero_double :: double where
  "zero_double = Finite 0"

definition one_double :: double where
  "one_double = Finite 1"

fun uminus_double :: "double \<Rightarrow> double" where
  "uminus_double (Finite x) = Finite (- x)"
| "uminus_double PInf = MInf"
| "uminus_double MInf = PInf"
| "uminus_double NaN = NaN"

fun plus_double :: "double \<Rightarrow> double \<Rightarrow> double" where
  "plus_double (Finite x) (Finite y) = Finite (x + y)"
| "plus_double NaN y = NaN"
| "plus_double x NaN = NaN"
| "plus_double PInf MInf = NaN"
| "plus_double MInf PInf = NaN"
| "plus_double PInf y = PInf"
| "plus_double x PInf = PInf"
| "plus_double MInf y = MInf"
| "plus_double x MInf = MInf"

definition minus_double :: "double \<Rightarrow> double \<Rightarrow> double" where
  "minus_double x y = x + (- y)"

fun times_double :: "double \<Rightarrow> double \<Rightarrow> double" where
  "times_double (Finite x) (Finite y) = Finite (x * y)"
| "times_double NaN y = NaN"
| "times_double x NaN = NaN"
| "times_double (Finite x) PInf = (if x = 0 then NaN else if 0 < x then PInf else MInf)"
| "times_double (Finite x) MInf = (if x = 0 then NaN else if 0 < x then MInf else PInf)"
| "times_double PInf (Finite y) = (if y = 0 then NaN else if 0 < y then PInf else MInf)"
| "times_double MInf (Finite y) = (if y = 0 then NaN else if 0 < y then MInf else PInf)"
| "times_double PInf PInf = PInf"
| "times_double PInf MInf = MInf"
| "times_double MInf PInf = MInf"
| "times_double MInf MInf = PInf"

fun divide_double :: "double \<Rightarrow> double \<Rightarrow> double" where
  "divide_double (Finite x) (Finite y) =
     (if y = 0 then (if x = 0 then NaN else if 0 < x then PInf else MInf)
      else Finite (x / y))"
| "divide_double NaN y = NaN"
| "divide_double x NaN = NaN"
| "divide_double (Finite x) PInf = Finite 0"
| "divide_double (Finite x) MInf = Finite 0"
| "divide_double PInf (Finite y) = (if 0 \<le> y then PInf else MInf)"
| "divide_double MInf (Finite y) = (if 0 \<le> y then MInf else PInf)"
| "divide_double PInf PInf = NaN"
| "divide_double PInf MInf = NaN"
| "divide_double MInf PInf = NaN"
| "divide_double MInf MInf = NaN"

definition inverse_double :: "double \<Rightarrow> double" where
  "inverse_double x = divide (Finite 1) x"

fun less_double :: "double \<Rightarrow> double \<Rightarrow> bool" where
  "less_double (Finite x) (Finite y) = (x < y)"
| "less_double NaN y = False"
| "less_double x NaN = False"
| "less_double x MInf = False"
| "less_double PInf y = False"
| "less_double MInf y = True"
| "less_double x PInf = True"

definition less_eq_double :: "double \<Rightarrow> double \<Rightarrow> bool" where
  "less_eq_double x y = (x < y \<or> (x = y \<and> x \<noteq> NaN))"

instance ..

end

instance double :: semigroup_add
proof
  fix x y z :: double
  show "x + y + z = x + (y + z)"
    by (cases x; cases y; cases z) simp_all
qed

instance double :: numeral ..

text \<open>The C operator \<^verbatim>\<open>!=\<close>: true as soon as one side is \<open>NaN\<close>.\<close>

definition dne :: "double \<Rightarrow> double \<Rightarrow> bool" where
  "dne x y = (x = NaN \<or> y = NaN \<or> x \<noteq> y)"

text \<open>The functions of \<^verbatim>\<open>math.h\<close> the program calls.\<close>

fun dsqrt :: "double \<Rightarrow> double" where
  "dsqrt (Finite x) = (if x < 0 then NaN else Finite (sqrt x))"
| "dsqrt PInf = PInf"
| "dsqrt MInf = NaN"
| "dsqrt NaN = NaN"

fun dsin :: "double \<Rightarrow> double" where
  "dsin (Finite x) = Finite (sin x)"
| "dsin PInf = NaN"
| "dsin MInf = NaN"
| "dsin NaN = NaN"

fun dcos :: "double \<Rightarrow> double" where
  "dcos (Finite x) = Finite (cos x)"
| "dcos PInf = NaN"
| "dcos MInf = NaN"
| "dcos NaN = NaN"

subsection \<open>Rounding to the nearest double\<close>

text \<open>The nearest integer, a tie going to the even one.\<close>

definition round_to_even :: "real \<Rightarrow> int" where
  "round_to_even x =
     (let n = \<lfloor>x\<rfloor>;
          r = x - of_int n
      in if r < 1 / 2 then n
         else if 1 / 2 < r then n + 1
         else if even n then n else n + 1)"

definition pow2 :: "int \<Rightarrow> real" where
  "pow2 k = (if 0 \<le> k then 2 ^ nat k else 1 / 2 ^ nat (- k))"

text \<open>The double (IEEE 754 binary64) nearest to a real number, a tie going to the even
  significand. With \<open>e\<close> the exponent of \<open>x\<close>, not below that of the subnormal numbers, the
  doubles around \<open>x\<close> are the multiples of \<open>pow2 (e - 52)\<close>; a result of magnitude \<open>pow2 1024\<close>
  or more is an infinity.\<close>

definition exponent :: "real \<Rightarrow> int" where
  "exponent x = max \<lfloor>log 2 \<bar>x\<bar>\<rfloor> (- 1022)"

definition nearest :: "real \<Rightarrow> real" where
  "nearest x =
     (if x = 0 then 0
      else (let u = pow2 (exponent x - 52) in of_int (round_to_even (x / u)) * u))"

definition binary64 :: "real \<Rightarrow> double" where
  "binary64 x =
     (let y = nearest x
      in if pow2 1024 \<le> y then PInf
         else if y \<le> - pow2 1024 then MInf
         else Finite y)"

text \<open>The rounding of the result of an operation: of a number the nearest double, of a
  special value itself.\<close>

fun rounded :: "double \<Rightarrow> double" where
  "rounded (Finite x) = binary64 x"
| "rounded PInf = PInf"
| "rounded MInf = MInf"
| "rounded NaN = NaN"

section \<open>The program\<close>

subsection \<open>Constants\<close>

text \<open>\<^verbatim>\<open>#define PI 3.1415926535898\<close>, \<^verbatim>\<open>#define TWOPI (2.0*PI)\<close>,
  \<^verbatim>\<open>#define rad2deg (180/PI)\<close>. The constant \<open>PI\<close> is the double nearest to the decimal
  number written in the source, which is \<open>884279719003557 / 2 ^ 48\<close>.\<close>

definition PI :: double where
  "PI = binary64 3.1415926535898"

definition TWOPI :: double where
  "TWOPI = 2 * PI"

definition rad2deg :: double where
  "rad2deg = 180 / PI"

subsection \<open>The structure \<^verbatim>\<open>tmprojection\<close>\<close>

record tmprojection =
  meridian :: double
  scalef :: double
  orglat :: double
  falsee :: double
  falsen :: double
  utom :: double
  a :: double
  rf :: double
  f :: double
  e2 :: double
  ep2 :: double
  om :: double

subsection \<open>\<^verbatim>\<open>meridian_arc\<close>\<close>

definition meridian_arc :: "tmprojection \<Rightarrow> double \<Rightarrow> double" where
  "meridian_arc tm lt =
     (let e2 = e2 tm;
          a = a tm;
          e4 = e2 * e2;
          e6 = e4 * e2;
          A0 = 1 - (e2 / 4) - (3 * e4 / 64) - (5 * e6 / 256);
          A2 = (3 / 8) * (e2 + e4 / 4 + 15 * e6 / 128);
          A4 = (15 / 256) * (e4 + 3 * e6 / 4);
          A6 = 35 * e6 / 3072
      in a * (A0 * lt - A2 * dsin (2 * lt) + A4 * dsin (4 * lt) - A6 * dsin (6 * lt)))"

subsection \<open>\<^verbatim>\<open>define_tmprojection\<close>\<close>

text \<open>The C function fills the structure \<open>tm\<close> points to; the model returns the filled
  structure. The parameters \<^verbatim>\<open>a\<close>, \<^verbatim>\<open>rf\<close> and \<^verbatim>\<open>utom\<close> are written \<open>a_in\<close>, \<open>rf_in\<close> and
  \<open>utom_in\<close>, the plain names being the fields.\<close>

definition define_tmprojection ::
  "tmprojection \<Rightarrow> double \<Rightarrow> double \<Rightarrow> double \<Rightarrow> double \<Rightarrow> double \<Rightarrow> double \<Rightarrow> double \<Rightarrow> double
     \<Rightarrow> tmprojection" where
  "define_tmprojection tm a_in rf_in cm sf lto fe fn utom_in =
     (let tm = tm\<lparr>meridian := cm\<rparr>;
          tm = tm\<lparr>scalef := sf\<rparr>;
          tm = tm\<lparr>orglat := lto\<rparr>;
          tm = tm\<lparr>falsee := fe\<rparr>;
          tm = tm\<lparr>falsen := fn\<rparr>;
          tm = tm\<lparr>utom := utom_in\<rparr>;
          f = (if dne rf_in 0 then 1 / rf_in else 0);
          tm = tm\<lparr>a := a_in\<rparr>;
          tm = tm\<lparr>rf := rf_in\<rparr>;
          tm = tm\<lparr>f := f\<rparr>;
          tm = tm\<lparr>e2 := 2 * f - f * f\<rparr>;
          tm = tm\<lparr>ep2 := e2 tm / (1 - e2 tm)\<rparr>
      in tm\<lparr>om := meridian_arc tm (orglat tm)\<rparr>)"

subsection \<open>\<^verbatim>\<open>foot_point_lat\<close>\<close>

definition foot_point_lat :: "tmprojection \<Rightarrow> double \<Rightarrow> double" where
  "foot_point_lat tm m =
     (let f = f tm;
          a = a tm;
          n = f / (2 - f);
          n2 = n * n;
          n3 = n2 * n;
          n4 = n2 * n2;
          g = a * (1 - n) * (1 - n2) * (1 + 9 * n2 / 4 + 225 * n4 / 64);
          sig = m / g;
          phio = sig + (3 * n / 2 - 27 * n3 / 32) * dsin (2 * sig)
                     + (21 * n2 / 16 - 55 * n4 / 32) * dsin (4 * sig)
                     + (151 * n3 / 96) * dsin (6 * sig)
                     + (1097 * n4 / 512) * dsin (8 * sig)
      in phio)"

subsection \<open>\<^verbatim>\<open>tm_geod\<close>\<close>

text \<open>The C function writes its results through the pointers \<^verbatim>\<open>ln\<close> and \<^verbatim>\<open>lt\<close>; the model
  returns the pair (\<^verbatim>\<open>*ln\<close>, \<^verbatim>\<open>*lt\<close>). The variables \<^verbatim>\<open>trm1\<close> to \<^verbatim>\<open>trm4\<close> are
  assigned twice, as in the source.\<close>

definition tm_geod :: "tmprojection \<Rightarrow> double \<Rightarrow> double \<Rightarrow> double \<times> double" where
  "tm_geod tm ce cn =
     (let fn = falsen tm;
          fe = falsee tm;
          sf = scalef tm;
          e2 = e2 tm;
          a = a tm;
          cm = meridian tm;
          om = om tm;
          utom = utom tm;
          cn1 = (cn - fn) * utom / sf + om;
          fphi = foot_point_lat tm cn1;
          slt = dsin fphi;
          clt = dcos fphi;
          eslt = (1 - e2 * slt * slt);
          eta = a / dsqrt eslt;
          rho = eta * (1 - e2) / eslt;
          psi = eta / rho;
          E = (ce - fe) * utom;
          x = E / (eta * sf);
          x2 = x * x;
          t = slt / clt;
          t2 = t * t;
          t4 = t2 * t2;
          trm1 = 1 / 2;
          trm2 = (((- 4) * psi
                       + 9 * (1 - t2)) * psi
                       + 12 * t2) / 24;
          trm3 = ((((8 * (11 - 24 * t2) * psi
                        - 12 * (21 - 71 * t2)) * psi
                        + 15 * ((15 * t2 - 98) * t2 + 15)) * psi
                        + 180 * (((- 3) * t2 + 5) * t2)) * psi + 360 * t4) / 720;
          trm4 = (((1575 * t2 + 4095) * t2 + 3633) * t2 + 1385) / 40320;
          lt_out = fphi + (t * x * E / (sf * rho)) * (((trm4 * x2 - trm3) * x2 + trm2) * x2 - trm1);
          trm1 = 1;
          trm2 = (psi + 2 * t2) / 6;
          trm3 = ((((- 4) * (1 - 6 * t2) * psi
                     + (9 - 68 * t2)) * psi
                     + 72 * t2) * psi
                     + 24 * t4) / 120;
          trm4 = (((720 * t2 + 1320) * t2 + 662) * t2 + 61) / 5040;
          ln_out = cm - (x / clt) * (((trm4 * x2 - trm3) * x2 + trm2) * x2 - trm1)
      in (ln_out, lt_out))"

subsection \<open>\<^verbatim>\<open>geod_tm\<close>\<close>

text \<open>The two \<^verbatim>\<open>while\<close> loops that bring \<^verbatim>\<open>dlon\<close> into range. A loop that never ends has
  the value \<open>None\<close>. The difference and the sum are rounded, as in the program: for a
  \<^verbatim>\<open>dlon\<close> so large that the nearest double to \<^verbatim>\<open>dlon - TWOPI\<close> is \<^verbatim>\<open>dlon\<close> itself, a turn of
  the loop changes nothing.\<close>

partial_function (option) geod_tm_while1 :: "double \<Rightarrow> double option" where
  "geod_tm_while1 dlon =
     (if dlon > PI then geod_tm_while1 (rounded (dlon - TWOPI)) else Some dlon)"

partial_function (option) geod_tm_while2 :: "double \<Rightarrow> double option" where
  "geod_tm_while2 dlon =
     (if dlon < - PI then geod_tm_while2 (rounded (dlon + TWOPI)) else Some dlon)"

text \<open>\<open>geod_tm\<close> is given in two parts, in the order of the source. The first part is the
  statement \<^verbatim>\<open>dlon = ln - cm\<close> and the two loops: it gives the value of \<^verbatim>\<open>dlon\<close> the rest
  of the function works with, or \<open>None\<close> when a loop never ends. The parameter \<^verbatim>\<open>ln\<close> is
  written \<open>ln_in\<close>, the plain name being the logarithm of HOL.\<close>

definition geod_tm_dlon :: "tmprojection \<Rightarrow> double \<Rightarrow> double option" where
  "geod_tm_dlon tm ln_in =
     (let cm = meridian tm;
          dlon = rounded (ln_in - cm)
      in case geod_tm_while1 dlon of
           None \<Rightarrow> None
         | Some dlon \<Rightarrow> geod_tm_while2 dlon)"

text \<open>The second part is the rest of the body, from \<^verbatim>\<open>m = meridian_arc(tm,lt)\<close> on. It gives
  the pair (\<^verbatim>\<open>*ce\<close>, \<^verbatim>\<open>*cn\<close>). The variables \<^verbatim>\<open>trm1\<close> to \<^verbatim>\<open>trm3\<close> are assigned twice, as in
  the source.\<close>

definition geod_tm_rest :: "tmprojection \<Rightarrow> double \<Rightarrow> double \<Rightarrow> double \<times> double" where
  "geod_tm_rest tm dlon lt =
     (let fn = falsen tm;
          fe = falsee tm;
          sf = scalef tm;
          e2 = e2 tm;
          a = a tm;
          om = om tm;
          utom = utom tm;
          m = meridian_arc tm lt;
          slt = dsin lt;
          eslt = (1 - e2 * slt * slt);
          eta = a / dsqrt eslt;
          rho = eta * (1 - e2) / eslt;
          psi = eta / rho;
          clt = dcos lt;
          w = dlon;
          wc = clt * w;
          wc2 = wc * wc;
          t = slt / clt;
          t2 = t * t;
          t4 = t2 * t2;
          t6 = t2 * t4;
          trm1 = (psi - t2) / 6;
          trm2 = (((4 * (1 - 6 * t2) * psi
                        + (1 + 8 * t2)) * psi
                        - 2 * t2) * psi + t4) / 120;
          trm3 = (61 - 479 * t2 + 179 * t4 - t6) / 5040;
          gce = (sf * eta * dlon * clt) * (((trm3 * wc2 + trm2) * wc2 + trm1) * wc2 + 1);
          ce = gce / utom + fe;
          trm1 = 1 / 2;
          trm2 = ((4 * psi + 1) * psi - t2) / 24;
          trm3 = ((((8 * (11 - 24 * t2) * psi
                      - 28 * (1 - 6 * t2)) * psi
                      + (1 - 32 * t2)) * psi
                      - 2 * t2) * psi
                      + t4) / 720;
          trm4 = (1385 - 3111 * t2 + 543 * t4 - t6) / 40320;
          gcn = (eta * t) * ((((trm4 * wc2 + trm3) * wc2 + trm2) * wc2 + trm1) * wc2);
          cn = (gcn + m - om) * sf / utom + fn
      in (ce, cn))"

text \<open>The whole function: the pair (\<^verbatim>\<open>*ce\<close>, \<^verbatim>\<open>*cn\<close>), or \<open>None\<close> when it does not return.\<close>

definition geod_tm :: "tmprojection \<Rightarrow> double \<Rightarrow> double \<Rightarrow> (double \<times> double) option" where
  "geod_tm tm ln_in lt =
     (case geod_tm_dlon tm ln_in of
        None \<Rightarrow> None
      | Some dlon \<Rightarrow> Some (geod_tm_rest tm dlon lt))"

subsection \<open>The NZTM projection\<close>

text \<open>Modelled from the spec: the constants \<^verbatim>\<open>NZTM_A\<close>, \<^verbatim>\<open>NZTM_RF\<close>, \<^verbatim>\<open>NZTM_CM\<close>,
  \<^verbatim>\<open>NZTM_OLAT\<close>, \<^verbatim>\<open>NZTM_SF\<close>, \<^verbatim>\<open>NZTM_FE\<close> and \<^verbatim>\<open>NZTM_FN\<close> of the header
  \<^verbatim>\<open>nztm.h\<close>, which is not among the sources. The spec gives their values: semi-major
  axis 6378137 m, inverse flattening 298.257222101, central meridian 173 degrees east,
  origin latitude 0, scale factor 0.9996, false easting 1600000 m, false northing
  10000000 m.\<close>

definition NZTM_A :: double where "NZTM_A = Finite 6378137"
definition NZTM_RF :: double where "NZTM_RF = Finite 298.257222101"
definition NZTM_CM :: double where "NZTM_CM = Finite 173"
definition NZTM_OLAT :: double where "NZTM_OLAT = Finite 0"
definition NZTM_SF :: double where "NZTM_SF = Finite 0.9996"
definition NZTM_FE :: double where "NZTM_FE = Finite 1600000"
definition NZTM_FN :: double where "NZTM_FN = Finite 10000000"

text \<open>The two static variables of the file, \<^verbatim>\<open>nztm_projection\<close> and \<^verbatim>\<open>initiallized\<close>, are
  the state the functions below pass along. C initialises statics to zero. The third
  field, \<open>constructions\<close>, is not a variable of the program: it is a counter kept beside
  it, which the branch of \<open>get_nztm_projection\<close> that calls \<open>define_tmprojection\<close> steps
  by one, and which nothing else touches or reads.\<close>

record statics =
  nztm_projection :: tmprojection
  initiallized :: int
  constructions :: nat

definition statics_at_start :: statics where
  "statics_at_start =
     \<lparr>nztm_projection =
        \<lparr>meridian = 0, scalef = 0, orglat = 0, falsee = 0, falsen = 0, utom = 0,
         a = 0, rf = 0, f = 0, e2 = 0, ep2 = 0, om = 0\<rparr>,
      initiallized = 0,
      constructions = 0\<rparr>"

text \<open>\<^verbatim>\<open>get_nztm_projection\<close> returns the address of the static structure, always the
  same one; the model returns the statics after the call, whose field \<open>nztm_projection\<close>
  is what the returned pointer points to.\<close>

definition get_nztm_projection :: "statics \<Rightarrow> statics" where
  "get_nztm_projection s =
     (if initiallized s = 0
      then (let s = s\<lparr>nztm_projection :=
                        define_tmprojection (nztm_projection s) NZTM_A NZTM_RF
                          (NZTM_CM / rad2deg) NZTM_SF (NZTM_OLAT / rad2deg) NZTM_FE NZTM_FN
                          1,
                      constructions := Suc (constructions s)\<rparr>
            in s\<lparr>initiallized := 1\<rparr>)
      else s)"

text \<open>\<open>n\<close> calls in a row.\<close>

fun calls :: "nat \<Rightarrow> statics \<Rightarrow> statics" where
  "calls 0 s = s"
| "calls (Suc n) s = calls n (get_nztm_projection s)"

definition nztm_geod :: "statics \<Rightarrow> double \<Rightarrow> double \<Rightarrow> statics \<times> double \<times> double" where
  "nztm_geod s n e =
     (let s = get_nztm_projection s;
          (ln_out, lt_out) = tm_geod (nztm_projection s) e n
      in (s, lt_out, ln_out))"

definition geod_nztm :: "statics \<Rightarrow> double \<Rightarrow> double \<Rightarrow> (statics \<times> double \<times> double) option" where
  "geod_nztm s lt ln_in =
     (let s = get_nztm_projection s
      in case geod_tm (nztm_projection s) ln_in lt of
           None \<Rightarrow> None
         | Some (e, n) \<Rightarrow> Some (s, n, e))"

section \<open>The formulas of the specification\<close>

text \<open>The two series as the specification writes them, over the real numbers. They are
  compared with \<open>meridian_arc\<close> and \<open>foot_point_lat\<close> below.\<close>

definition arcLength :: "real \<Rightarrow> real \<Rightarrow> real \<Rightarrow> real" where
  "arcLength semi_major ecc_sq lat =
     (let e4 = ecc_sq\<^sup>2;
          e6 = ecc_sq * e4;
          A0 = 1 - ecc_sq / 4 - 3 * e4 / 64 - 5 * e6 / 256;
          A2 = (3 / 8) * (ecc_sq + e4 / 4 + 15 * e6 / 128);
          A4 = (15 / 256) * (e4 + 3 * e6 / 4);
          A6 = 35 * e6 / 3072
      in semi_major * (A0 * lat - A2 * sin (2 * lat) + A4 * sin (4 * lat) - A6 * sin (6 * lat)))"

definition footPointLatitude :: "real \<Rightarrow> real \<Rightarrow> real \<Rightarrow> real" where
  "footPointLatitude semi_major flat arcMetres =
     (let n = flat / (2 - flat);
          g = semi_major * (1 - n) * (1 - n\<^sup>2) * (1 + 9 * n\<^sup>2 / 4 + 225 * n ^ 4 / 64);
          \<sigma> = arcMetres / g
      in \<sigma> + (3 * n / 2 - 27 * n ^ 3 / 32) * sin (2 * \<sigma>)
           + (21 * n\<^sup>2 / 16 - 55 * n ^ 4 / 32) * sin (4 * \<sigma>)
           + (151 * n ^ 3 / 96) * sin (6 * \<sigma>)
           + (1097 * n ^ 4 / 512) * sin (8 * \<sigma>))"

section \<open>Projections\<close>

text \<open>What the theorems below ask of a structure for it to be a projection: the fields
  \<open>geod_tm\<close> reads are numbers, the semi-major axis is not zero, the squared eccentricity
  is below 1, and \<open>om\<close> is the meridional arc of the origin latitude, as
  \<open>define_tmprojection\<close> leaves it. Every projection of the specification's data model
  (semi-major axis above 0, squared eccentricity from 0 up to 1, \<open>originArc\<close> computed at
  construction) is one.\<close>

definition projection :: "tmprojection \<Rightarrow> bool" where
  "projection tm =
     (is_finite (meridian tm) \<and> is_finite (scalef tm) \<and> is_finite (orglat tm)
      \<and> is_finite (falsee tm) \<and> is_finite (falsen tm) \<and> is_finite (utom tm)
      \<and> is_finite (a tm) \<and> val (a tm) \<noteq> 0
      \<and> is_finite (e2 tm) \<and> val (e2 tm) < 1
      \<and> om tm = meridian_arc tm (orglat tm))"

text \<open>Three small projections for the examples: the unit sphere with every offset zero,
  once with unit-to-metre factor 1 and once with unit-to-metre factor 0, and a very flat
  ellipsoid, of inverse flattening 5/4, that is of squared eccentricity 24/25.\<close>

definition unit_sphere :: tmprojection where
  "unit_sphere = define_tmprojection (nztm_projection statics_at_start) 1 0 0 1 0 0 0 1"

definition sphere_utom0 :: tmprojection where
  "sphere_utom0 = define_tmprojection (nztm_projection statics_at_start) 1 0 0 1 0 0 0 0"

definition flat_ellipsoid :: tmprojection where
  "flat_ellipsoid = define_tmprojection (nztm_projection statics_at_start) 1 (5 / 4) 0 1 0 0 0 1"

section \<open>Arithmetic of finite doubles\<close>

lemma numeral_double: "(numeral k :: double) = Finite (numeral k)"
proof (induction k)
  case One
  show ?case by (simp add: one_double_def)
next
  case (Bit0 k)
  have "(numeral (num.Bit0 k) :: double) = numeral k + numeral k"
    by (rule numeral.simps(2))
  also have "\<dots> = Finite (numeral k + numeral k)"
    by (simp only: Bit0.IH plus_double.simps)
  also have "(numeral k + numeral k :: real) = numeral (num.Bit0 k)"
    by (rule numeral.simps(2) [symmetric])
  finally show ?case .
next
  case (Bit1 k)
  have "(numeral (num.Bit1 k) :: double) = numeral k + numeral k + 1"
    by (rule numeral.simps(3))
  also have "\<dots> = Finite (numeral k + numeral k + 1)"
    by (simp only: Bit1.IH plus_double.simps one_double_def)
  also have "(numeral k + numeral k + 1 :: real) = numeral (num.Bit1 k)"
    by (rule numeral.simps(3) [symmetric])
  finally show ?case .
qed

lemma minus_Finite: "Finite x - Finite y = Finite (x - y)"
  by (simp add: minus_double_def)

lemma divide_Finite: "y \<noteq> 0 \<Longrightarrow> Finite x / Finite y = Finite (x / y)"
  by simp

lemmas finite_arith = numeral_double zero_double_def one_double_def minus_Finite

lemma dne_Finite: "dne (Finite x) (Finite y) = (x \<noteq> y)"
  by (simp add: dne_def)

lemma is_finite_val: "is_finite x \<Longrightarrow> x = Finite (val x)"
  by (cases x) simp_all

lemma Finite_zero_plus: "Finite 0 + y = y"
  by (cases y) simp_all

section \<open>Rounding\<close>

lemma pow2_powr: "pow2 k = 2 powr of_int k"
proof (cases "0 \<le> k")
  case True
  then have "(2::real) powr of_int k = 2 powr real (nat k)" by simp
  also have "\<dots> = 2 ^ nat k" by (rule powr_realpow) simp
  finally show ?thesis using True by (simp add: pow2_def)
next
  case False
  then have "(2::real) powr of_int k = 2 powr (- real (nat (- k)))" by simp
  also have "\<dots> = 1 / 2 powr real (nat (- k))" by (rule powr_minus_divide)
  also have "(2::real) powr real (nat (- k)) = 2 ^ nat (- k)" by (rule powr_realpow) simp
  finally show ?thesis using False by (simp add: pow2_def)
qed

lemma pow2_pos: "0 < pow2 k"
  by (simp add: pow2_def)

lemma pow2_add: "pow2 (i + j) = pow2 i * pow2 j"
  by (simp add: pow2_powr powr_add)

lemma pow2_mono: "i \<le> j \<Longrightarrow> pow2 i \<le> pow2 j"
  by (simp add: pow2_powr)

lemma pow2_of_nat: "0 \<le> j \<Longrightarrow> pow2 j = of_int (2 ^ nat j)"
  by (simp add: pow2_def)

lemma floor_log2_eqI:
  assumes "0 < x" "pow2 k \<le> x" "x < pow2 (k + 1)"
  shows "\<lfloor>log 2 x\<rfloor> = k"
proof (rule floor_unique)
  show "of_int k \<le> log 2 x"
    using assms(1,2) by (simp add: le_log_iff pow2_powr)
  have "log 2 x < of_int (k + 1)"
    using assms(1,3) by (simp add: log_less_iff pow2_powr del: of_int_add)
  then show "log 2 x < of_int k + 1" by simp
qed

lemma round_to_even_near:
  assumes "\<bar>r - of_int n\<bar> < 1 / 2"
  shows "round_to_even r = n"
proof -
  from assms have up: "r < of_int n + 1 / 2" and low: "of_int n - 1 / 2 < r"
    by linarith+
  show ?thesis
  proof (cases "of_int n \<le> r")
    case True
    have "\<lfloor>r\<rfloor> = n"
      by (rule floor_unique) (use up True in linarith)+
    with up show ?thesis by (simp add: round_to_even_def Let_def)
  next
    case False
    have f: "\<lfloor>r\<rfloor> = n - 1"
    proof (rule floor_unique)
      show "of_int (n - 1) \<le> r" using low by simp
      show "r < of_int (n - 1) + 1" using False by simp
    qed
    have "1 / 2 < r - of_int (n - 1)" using low by simp
    with f show ?thesis by (simp add: round_to_even_def Let_def)
  qed
qed

lemma round_to_even_of_int: "round_to_even (of_int n) = n"
  by (rule round_to_even_near) simp

lemma round_to_even_bounds:
  "of_int (round_to_even r) \<le> r + 1 / 2" "r - 1 / 2 \<le> of_int (round_to_even r)"
proof -
  have 1: "of_int \<lfloor>r\<rfloor> \<le> r" and 2: "r < of_int \<lfloor>r\<rfloor> + 1" by linarith+
  show "of_int (round_to_even r) \<le> r + 1 / 2"
    using 1 2 by (simp add: round_to_even_def Let_def) linarith
  show "r - 1 / 2 \<le> of_int (round_to_even r)"
    using 1 2 by (simp add: round_to_even_def Let_def) linarith
qed

lemma round_to_even_mono:
  assumes "r \<le> s"
  shows "round_to_even r \<le> round_to_even s"
proof (rule ccontr)
  assume "\<not> round_to_even r \<le> round_to_even s"
  then have "round_to_even s + 1 \<le> round_to_even r" by simp
  then have "(of_int (round_to_even s) :: real) + 1 \<le> of_int (round_to_even r)"
    by (metis of_int_le_iff of_int_add of_int_1)
  with round_to_even_bounds(1) [of r] round_to_even_bounds(2) [of s] assms
  have "r = s" by linarith
  with \<open>\<not> round_to_even r \<le> round_to_even s\<close> show False by simp
qed

lemma round_to_even_uminus: "round_to_even (- r) = - round_to_even r"
proof (cases "r = of_int \<lfloor>r\<rfloor>")
  case True
  then obtain n where "r = of_int n" ..
  then have "- r = of_int (- n)" by simp
  with \<open>r = of_int n\<close> show ?thesis by (simp only: round_to_even_of_int)
next
  case False
  define n where "n = \<lfloor>r\<rfloor>"
  have 1: "of_int n < r" and 2: "r < of_int n + 1"
    using False unfolding n_def by linarith+
  have f: "\<lfloor>- r\<rfloor> = - n - 1"
    by (rule floor_unique) (use 1 2 in simp_all)
  have e: "even (- n - 1) \<longleftrightarrow> odd n" by simp
  show ?thesis
    unfolding round_to_even_def Let_def f n_def [symmetric] e
    using 1 2 by (auto simp add: field_simps)
qed

lemma exponent_uminus: "exponent (- x) = exponent x"
  by (simp add: exponent_def)

lemma exponent_ge: "- 1022 \<le> exponent x"
  by (simp add: exponent_def)

lemma exponent_mono:
  assumes "0 < x" "x \<le> y"
  shows "exponent x \<le> exponent y"
proof -
  have "log 2 x \<le> log 2 y" using assms by simp
  then have "\<lfloor>log 2 x\<rfloor> \<le> \<lfloor>log 2 y\<rfloor>" by (rule floor_mono)
  then show ?thesis using assms by (simp add: exponent_def)
qed

lemma less_pow2_exponent:
  assumes "x \<noteq> 0"
  shows "\<bar>x\<bar> < pow2 (exponent x + 1)"
proof -
  have "log 2 \<bar>x\<bar> < of_int (\<lfloor>log 2 \<bar>x\<bar>\<rfloor> + 1)" by simp
  then have "\<bar>x\<bar> < pow2 (\<lfloor>log 2 \<bar>x\<bar>\<rfloor> + 1)"
    using assms by (simp add: log_less_iff pow2_powr del: of_int_add)
  also have "\<dots> \<le> pow2 (exponent x + 1)"
    by (rule pow2_mono) (simp add: exponent_def)
  finally show ?thesis .
qed

lemma pow2_exponent_le:
  assumes "x \<noteq> 0" "- 1022 < exponent x"
  shows "pow2 (exponent x) \<le> \<bar>x\<bar>"
proof -
  from assms(2) have "exponent x = \<lfloor>log 2 \<bar>x\<bar>\<rfloor>" by (simp add: exponent_def max_def split: if_splits)
  then have "pow2 (exponent x) = 2 powr of_int \<lfloor>log 2 \<bar>x\<bar>\<rfloor>" by (simp add: pow2_powr)
  also have "\<dots> \<le> 2 powr log 2 \<bar>x\<bar>" by (rule powr_mono) simp_all
  also have "\<dots> = \<bar>x\<bar>" using assms(1) by simp
  finally show ?thesis .
qed

lemma exponent_eqI:
  assumes "pow2 e \<le> \<bar>x\<bar>" "\<bar>x\<bar> < pow2 (e + 1)" "- 1022 \<le> e"
  shows "exponent x = e"
proof -
  from assms(1) pow2_pos [of e] have "0 < \<bar>x\<bar>" by linarith
  then have "\<lfloor>log 2 \<bar>x\<bar>\<rfloor> = e"
    using assms(1,2) by (intro floor_log2_eqI)
  then show ?thesis using assms(3) by (simp add: exponent_def)
qed


lemma nearest_zero: "nearest 0 = 0"
  by (simp add: nearest_def)

lemma nearest_uminus: "nearest (- x) = - nearest x"
  by (simp add: nearest_def exponent_uminus Let_def round_to_even_uminus)

lemma nearest_nonneg:
  assumes "0 \<le> x"
  shows "0 \<le> nearest x"
proof (cases "x = 0")
  case True
  then show ?thesis by (simp add: nearest_zero)
next
  case False
  let ?u = "pow2 (exponent x - 52)"
  have "0 \<le> x / ?u" using assms pow2_pos [of "exponent x - 52"] by simp
  then have "round_to_even (of_int 0) \<le> round_to_even (x / ?u)"
    by (intro round_to_even_mono) simp
  then have "0 \<le> round_to_even (x / ?u)" by (simp only: round_to_even_of_int)
  then have "0 \<le> of_int (round_to_even (x / ?u)) * ?u"
    using pow2_pos [of "exponent x - 52"] by simp
  with False show ?thesis by (simp add: nearest_def Let_def)
qed

lemma nearest_le_pow2:
  assumes "0 < x"
  shows "nearest x \<le> pow2 (exponent x + 1)"
proof -
  let ?u = "pow2 (exponent x - 52)"
  have u: "0 < ?u" by (rule pow2_pos)
  have "pow2 (exponent x + 1) = pow2 (53 + (exponent x - 52))"
    by (rule arg_cong [where f = pow2]) simp
  also have "\<dots> = pow2 53 * ?u" by (rule pow2_add)
  also have "pow2 53 = of_int (2 ^ 53)" by (simp add: pow2_def)
  finally have s: "pow2 (exponent x + 1) = of_int (2 ^ 53) * ?u" .
  from less_pow2_exponent [of x] assms have "x < of_int (2 ^ 53) * ?u"
    by (simp add: s)
  then have "x / ?u \<le> of_int (2 ^ 53)"
    using u by (simp add: field_simps)
  then have "round_to_even (x / ?u) \<le> round_to_even (of_int (2 ^ 53))"
    by (rule round_to_even_mono)
  then have "round_to_even (x / ?u) \<le> 2 ^ 53" by (simp only: round_to_even_of_int)
  then have "(of_int (round_to_even (x / ?u)) :: real) \<le> of_int (2 ^ 53)"
    by (simp only: of_int_le_iff)
  then have "of_int (round_to_even (x / ?u)) * ?u \<le> of_int (2 ^ 53) * ?u"
    using u by (intro mult_right_mono) simp_all
  with assms show ?thesis by (simp add: nearest_def Let_def s)
qed

lemma nearest_ge_pow2:
  assumes "0 < x" "- 1022 < exponent x"
  shows "pow2 (exponent x) \<le> nearest x"
proof -
  let ?u = "pow2 (exponent x - 52)"
  have u: "0 < ?u" by (rule pow2_pos)
  have "pow2 (exponent x) = pow2 (52 + (exponent x - 52))"
    by (rule arg_cong [where f = pow2]) simp
  also have "\<dots> = pow2 52 * ?u" by (rule pow2_add)
  also have "pow2 52 = of_int (2 ^ 52)" by (simp add: pow2_def)
  finally have s: "pow2 (exponent x) = of_int (2 ^ 52) * ?u" .
  from pow2_exponent_le [of x] assms have "of_int (2 ^ 52) * ?u \<le> x"
    by (simp add: s)
  then have "of_int (2 ^ 52) \<le> x / ?u"
    using u by (simp add: field_simps)
  then have "round_to_even (of_int (2 ^ 52)) \<le> round_to_even (x / ?u)"
    by (rule round_to_even_mono)
  then have "2 ^ 52 \<le> round_to_even (x / ?u)" by (simp only: round_to_even_of_int)
  then have "(of_int (2 ^ 52) :: real) \<le> of_int (round_to_even (x / ?u))"
    by (simp only: of_int_le_iff)
  then have "of_int (2 ^ 52) * ?u \<le> of_int (round_to_even (x / ?u)) * ?u"
    using u by (intro mult_right_mono) simp_all
  with assms show ?thesis by (simp add: nearest_def Let_def s)
qed

lemma nearest_mono_pos:
  assumes "0 < x" "x \<le> y"
  shows "nearest x \<le> nearest y"
proof (cases "exponent x = exponent y")
  case True
  let ?u = "pow2 (exponent y - 52)"
  have u: "0 < ?u" by (rule pow2_pos)
  have "x / ?u \<le> y / ?u" using assms(2) u by (simp add: divide_right_mono)
  then have "round_to_even (x / ?u) \<le> round_to_even (y / ?u)"
    by (rule round_to_even_mono)
  then have "(of_int (round_to_even (x / ?u)) :: real) \<le> of_int (round_to_even (y / ?u))"
    by (simp only: of_int_le_iff)
  then have "of_int (round_to_even (x / ?u)) * ?u \<le> of_int (round_to_even (y / ?u)) * ?u"
    using u by (intro mult_right_mono) simp_all
  with assms True show ?thesis by (simp add: nearest_def Let_def)
next
  case False
  with exponent_mono [OF assms] have lt: "exponent x + 1 \<le> exponent y" by simp
  with exponent_ge [of x] have "- 1022 < exponent y" by simp
  with assms have "pow2 (exponent y) \<le> nearest y" by (intro nearest_ge_pow2) simp_all
  moreover have "nearest x \<le> pow2 (exponent x + 1)" using assms(1) by (rule nearest_le_pow2)
  moreover have "pow2 (exponent x + 1) \<le> pow2 (exponent y)" using lt by (rule pow2_mono)
  ultimately show ?thesis by linarith
qed

lemma nearest_mono:
  assumes "x \<le> y"
  shows "nearest x \<le> nearest y"
proof -
  consider "0 < x" | "x \<le> 0" "0 \<le> y" | "y < 0" by linarith
  then show ?thesis
  proof cases
    case 1
    then show ?thesis using assms by (rule nearest_mono_pos)
  next
    case 2
    from 2(1) have "0 \<le> nearest (- x)" by (intro nearest_nonneg) simp
    then have "nearest x \<le> 0" by (simp add: nearest_uminus)
    moreover from 2(2) have "0 \<le> nearest y" by (rule nearest_nonneg)
    ultimately show ?thesis by linarith
  next
    case 3
    then have "nearest (- y) \<le> nearest (- x)"
      using assms by (intro nearest_mono_pos) simp_all
    then show ?thesis by (simp add: nearest_uminus)
  qed
qed

lemma nearest_exact:
  assumes "d = of_int N * pow2 k" "\<bar>d\<bar> < pow2 (k + 53)" "- 1074 \<le> k"
  shows "nearest d = d"
proof (cases "d = 0")
  case True
  then show ?thesis by (simp add: nearest_zero)
next
  case False
  have le: "exponent d - 52 \<le> k"
  proof (cases "- 1022 < exponent d")
    case True
    with False have "pow2 (exponent d) \<le> \<bar>d\<bar>" by (intro pow2_exponent_le)
    with assms(2) have "pow2 (exponent d) < pow2 (k + 53)" by linarith
    then have "\<not> k + 53 \<le> exponent d"
      using pow2_mono [of "k + 53" "exponent d"] by auto
    then show ?thesis by simp
  next
    case False
    then show ?thesis using assms(3) by simp
  qed
  define j where "j = k - (exponent d - 52)"
  let ?u = "pow2 (exponent d - 52)"
  have u: "0 < ?u" by (rule pow2_pos)
  have j: "0 \<le> j" using le by (simp add: j_def)
  have "pow2 k = pow2 j * ?u"
    using pow2_add [of j "exponent d - 52"] by (simp add: j_def)
  also have "pow2 j = of_int (2 ^ nat j)" using j by (rule pow2_of_nat)
  finally have d: "d = of_int (N * 2 ^ nat j) * ?u"
    using assms(1) by simp
  then have "d / ?u = of_int (N * 2 ^ nat j)" using u by (simp add: field_simps)
  then have "round_to_even (d / ?u) = N * 2 ^ nat j"
    by (simp only: round_to_even_of_int)
  then have "nearest d = of_int (N * 2 ^ nat j) * ?u"
    using False by (simp add: nearest_def Let_def)
  with d show ?thesis by simp
qed

lemma nearest_eval:
  assumes "pow2 e \<le> \<bar>x\<bar>" "\<bar>x\<bar> < pow2 (e + 1)" "- 1022 \<le> e"
    and "\<bar>x / pow2 (e - 52) - of_int n\<bar> < 1 / 2"
  shows "nearest x = of_int n * pow2 (e - 52)"
proof -
  from assms(1) pow2_pos [of e] have "x \<noteq> 0" by auto
  moreover have "exponent x = e" using assms(1-3) by (rule exponent_eqI)
  moreover have "round_to_even (x / pow2 (e - 52)) = n"
    using assms(4) by (rule round_to_even_near)
  ultimately show ?thesis by (simp add: nearest_def Let_def)
qed

lemma binary64_Finite:
  assumes "\<bar>nearest x\<bar> < pow2 1024"
  shows "binary64 x = Finite (nearest x)"
proof -
  from assms have "\<not> pow2 1024 \<le> nearest x" "\<not> nearest x \<le> - pow2 1024" by linarith+
  then show ?thesis by (simp add: binary64_def Let_def)
qed

lemma binary64_exact:
  assumes "d = of_int N * pow2 k" "\<bar>d\<bar> < pow2 (k + 53)" "- 1074 \<le> k" "k \<le> 971"
  shows "binary64 d = Finite d"
proof -
  have n: "nearest d = d" using assms(1-3) by (rule nearest_exact)
  have "pow2 (k + 53) \<le> pow2 1024" using assms(4) by (intro pow2_mono) simp
  with assms(2) have "\<bar>nearest d\<bar> < pow2 1024" by (simp add: n)
  then show ?thesis by (simp add: binary64_Finite n)
qed

lemma binary64_zero: "binary64 0 = Finite 0"
  using pow2_pos [of 1024] by (simp add: binary64_def nearest_zero)

lemma binary64_not_NaN: "binary64 x \<noteq> NaN"
  by (simp add: binary64_def Let_def)

lemma binary64_mono:
  assumes "x \<le> y"
  shows "binary64 x \<le> binary64 y"
  using nearest_mono [OF assms] pow2_pos [of 1024]
  by (auto simp add: binary64_def Let_def less_eq_double_def)

lemma rounded_not_NaN: "d \<noteq> NaN \<Longrightarrow> rounded d \<noteq> NaN"
  by (cases d) (simp_all add: binary64_not_NaN)

section \<open>The constant \<open>PI\<close> and the number \<open>pi\<close>\<close>






lemma nearest_PI_literal: "nearest 3.1415926535898 = 884279719003557 / 2 ^ 48"
proof -
  have "nearest 3.1415926535898 = of_int 7074237752028456 * pow2 (1 - 52)"
    by (rule nearest_eval) (simp_all add: pow2_def)
  then show ?thesis by (simp add: pow2_def)
qed

lemma PI_value: "PI = Finite (884279719003557 / 2 ^ 48)"
proof -
  have "\<bar>884279719003557 / 2 ^ 48 :: real\<bar> < pow2 2" by (simp add: pow2_def)
  also have "pow2 2 \<le> pow2 1024" by (rule pow2_mono) simp
  finally have "\<bar>nearest 3.1415926535898\<bar> < pow2 1024"
    by (simp only: nearest_PI_literal)
  then have "binary64 3.1415926535898 = Finite (nearest 3.1415926535898)"
    by (rule binary64_Finite)
  then show ?thesis
    by (simp only: PI_def nearest_PI_literal)
qed

lemma val_PI: "val PI = 884279719003557 / 2 ^ 48"
  by (simp add: PI_value)



lemma val_PI_pos: "0 < val PI"
  by (simp add: val_PI)

lemma TWOPI_Finite: "TWOPI = Finite (val TWOPI)"
  by (simp add: TWOPI_def PI_value finite_arith)

lemma val_TWOPI: "val TWOPI = 2 * val PI"
  by (simp add: TWOPI_def PI_value finite_arith)


lemma binary64_minus_PI: "binary64 (- val PI) = - PI"
proof -
  have "binary64 (- val PI) = Finite (- val PI)"
    by (rule binary64_exact [where N = "- 884279719003557" and k = "- 48"])
       (simp_all add: val_PI pow2_def)
  then show ?thesis by (simp add: PI_value)
qed


lemma binary64_ge_minus_PI:
  assumes "- val PI \<le> x"
  shows "\<not> binary64 x < - PI"
proof -
  from binary64_mono [OF assms] have "- PI \<le> binary64 x" by (simp only: binary64_minus_PI)
  then show ?thesis
    unfolding PI_value by (cases "binary64 x") (auto simp add: less_eq_double_def)
qed

section \<open>The projections of the examples, and the NZTM projection\<close>

lemma define_tmprojection_fields:
  "meridian (define_tmprojection tm a_in rf_in cm sf lto fe fn ut) = cm"
  "scalef (define_tmprojection tm a_in rf_in cm sf lto fe fn ut) = sf"
  "orglat (define_tmprojection tm a_in rf_in cm sf lto fe fn ut) = lto"
  "falsee (define_tmprojection tm a_in rf_in cm sf lto fe fn ut) = fe"
  "falsen (define_tmprojection tm a_in rf_in cm sf lto fe fn ut) = fn"
  "utom (define_tmprojection tm a_in rf_in cm sf lto fe fn ut) = ut"
  "a (define_tmprojection tm a_in rf_in cm sf lto fe fn ut) = a_in"
  "rf (define_tmprojection tm a_in rf_in cm sf lto fe fn ut) = rf_in"
  "f (define_tmprojection tm a_in rf_in cm sf lto fe fn ut)
     = (if dne rf_in 0 then 1 / rf_in else 0)"
  "e2 (define_tmprojection tm a_in rf_in cm sf lto fe fn ut)
     = 2 * (if dne rf_in 0 then 1 / rf_in else 0)
         - (if dne rf_in 0 then 1 / rf_in else 0) * (if dne rf_in 0 then 1 / rf_in else 0)"
  by (simp_all add: define_tmprojection_def Let_def)

lemma define_tmprojection_om:
  "om (define_tmprojection tm a_in rf_in cm sf lto fe fn ut)
     = meridian_arc (define_tmprojection tm a_in rf_in cm sf lto fe fn ut) lto"
  by (simp add: define_tmprojection_def Let_def meridian_arc_def)

lemma nztm_projection_at_start:
  "nztm_projection (get_nztm_projection statics_at_start)
     = define_tmprojection (nztm_projection statics_at_start) NZTM_A NZTM_RF (NZTM_CM / rad2deg)
         NZTM_SF (NZTM_OLAT / rad2deg) NZTM_FE NZTM_FN 1"
  by (simp add: get_nztm_projection_def statics_at_start_def Let_def)

lemma NZTM_angles:
  "NZTM_CM / rad2deg = Finite (173 / (180 / (884279719003557 / 2 ^ 48)))"
  "NZTM_OLAT / rad2deg = Finite 0"
  by (simp_all add: NZTM_CM_def NZTM_OLAT_def rad2deg_def PI_value finite_arith)

lemma nztm_projection_fields:
  "meridian (nztm_projection (get_nztm_projection statics_at_start))
     = Finite (173 / (180 / (884279719003557 / 2 ^ 48)))"
  "scalef (nztm_projection (get_nztm_projection statics_at_start)) = Finite 0.9996"
  "orglat (nztm_projection (get_nztm_projection statics_at_start)) = Finite 0"
  "falsee (nztm_projection (get_nztm_projection statics_at_start)) = Finite 1600000"
  "falsen (nztm_projection (get_nztm_projection statics_at_start)) = Finite 10000000"
  "utom (nztm_projection (get_nztm_projection statics_at_start)) = Finite 1"
  "a (nztm_projection (get_nztm_projection statics_at_start)) = Finite 6378137"
  "e2 (nztm_projection (get_nztm_projection statics_at_start))
     = Finite (2 * (1 / 298.257222101) - (1 / 298.257222101) * (1 / 298.257222101))"
  by (simp_all only: nztm_projection_at_start define_tmprojection_fields NZTM_angles)
     (simp_all add: NZTM_A_def NZTM_RF_def NZTM_SF_def NZTM_FE_def NZTM_FN_def
      finite_arith dne_Finite)

lemma projection_nztm: "projection (nztm_projection (get_nztm_projection statics_at_start))"
proof -
  let ?P = "nztm_projection (get_nztm_projection statics_at_start)"
  have "om ?P = meridian_arc ?P (orglat ?P)"
    by (simp only: nztm_projection_at_start define_tmprojection_om define_tmprojection_fields)
  then show ?thesis
    by (simp add: projection_def nztm_projection_fields)
qed

lemma unit_sphere_fields:
  "meridian unit_sphere = Finite 0" "scalef unit_sphere = Finite 1" "orglat unit_sphere = Finite 0"
  "falsee unit_sphere = Finite 0" "falsen unit_sphere = Finite 0" "utom unit_sphere = Finite 1"
  "a unit_sphere = Finite 1" "e2 unit_sphere = Finite 0" "om unit_sphere = Finite 0"
  "f unit_sphere = Finite 0"
  by (simp_all add: unit_sphere_def define_tmprojection_def Let_def finite_arith dne_Finite
      meridian_arc_def)




lemma sphere_utom0_fields:
  "meridian sphere_utom0 = Finite 0" "scalef sphere_utom0 = Finite 1"
  "orglat sphere_utom0 = Finite 0" "falsee sphere_utom0 = Finite 0"
  "falsen sphere_utom0 = Finite 0" "utom sphere_utom0 = Finite 0"
  "a sphere_utom0 = Finite 1" "e2 sphere_utom0 = Finite 0" "om sphere_utom0 = Finite 0"
  by (simp_all add: sphere_utom0_def define_tmprojection_def Let_def finite_arith dne_Finite
      meridian_arc_def)

lemma projection_unit_sphere: "projection unit_sphere"
  by (simp add: projection_def unit_sphere_fields meridian_arc_def Let_def finite_arith)

lemma projection_sphere_utom0: "projection sphere_utom0"
  by (simp add: projection_def sphere_utom0_fields meridian_arc_def Let_def finite_arith)

section \<open>The ellipsoid parameters\<close>

text \<open>
  Claim C7. For every semi-major axis and every inverse flattening, \<open>define_tmprojection\<close>
  stores \<open>f = 1 / rf\<close> when \<open>rf\<close> is not zero and \<open>f = 0\<close> when it is, \<open>e2 = 2 f - f\<^sup>2\<close>
  and \<open>ep2 = e2 / (1 - e2)\<close>, in the arithmetic of doubles. When the two inputs are the
  numbers \<open>av\<close> and \<open>r\<close>, these are the numbers of the same formulas; the one division by
  zero there can be, at \<open>e2 = 1\<close>, stores the infinity of C and is no error. The function
  is total and its only effect is the structure it returns, with the six projection
  parameters as given.
\<close>

theorem define_tmprojection_ellipsoid:
  fixes av r :: real
  shows
    "(let P = define_tmprojection tm a_in rf_in cm sf lto fe fn ut
      in a P = a_in \<and> rf P = rf_in
         \<and> f P = (if dne rf_in 0 then 1 / rf_in else 0)
         \<and> e2 P = 2 * f P - f P * f P
         \<and> ep2 P = e2 P / (1 - e2 P)
         \<and> meridian P = cm \<and> scalef P = sf \<and> orglat P = lto \<and> falsee P = fe
         \<and> falsen P = fn \<and> utom P = ut)
     \<and> (let P = define_tmprojection tm (Finite av) (Finite r) cm sf lto fe fn ut;
            fv = (if r \<noteq> 0 then 1 / r else 0);
            ev = 2 * fv - fv * fv
        in f P = Finite fv \<and> e2 P = Finite ev
           \<and> ep2 P = (if ev = 1 then PInf else Finite (ev / (1 - ev))))"
proof -
  have "let P = define_tmprojection tm a_in rf_in cm sf lto fe fn ut
        in a P = a_in \<and> rf P = rf_in
           \<and> f P = (if dne rf_in 0 then 1 / rf_in else 0)
           \<and> e2 P = 2 * f P - f P * f P
           \<and> ep2 P = e2 P / (1 - e2 P)
           \<and> meridian P = cm \<and> scalef P = sf \<and> orglat P = lto \<and> falsee P = fe
           \<and> falsen P = fn \<and> utom P = ut"
    by (simp add: define_tmprojection_def Let_def)
  moreover
  have "let P = define_tmprojection tm (Finite av) (Finite r) cm sf lto fe fn ut;
            fv = (if r \<noteq> 0 then 1 / r else 0);
            ev = 2 * fv - fv * fv
        in f P = Finite fv \<and> e2 P = Finite ev
           \<and> ep2 P = (if ev = 1 then PInf else Finite (ev / (1 - ev)))"
    by (simp add: define_tmprojection_def Let_def dne_Finite finite_arith)
  ultimately show ?thesis by simp
qed

theorem define_tmprojection_ellipsoid_witness:
  "f (define_tmprojection (nztm_projection statics_at_start) (Finite 6378137) (Finite 4)
        0 1 0 0 0 1) = Finite (1 / 4)
   \<and> e2 (define_tmprojection (nztm_projection statics_at_start) (Finite 6378137) (Finite 4)
        0 1 0 0 0 1) = Finite (7 / 16)
   \<and> ep2 (define_tmprojection (nztm_projection statics_at_start) (Finite 6378137) (Finite 4)
        0 1 0 0 0 1) = Finite (7 / 9)
   \<and> f (define_tmprojection (nztm_projection statics_at_start) (Finite 6378137) (Finite 0)
        0 1 0 0 0 1) = Finite 0"
  using define_tmprojection_ellipsoid
      [of "nztm_projection statics_at_start" "Finite 6378137" "Finite 4" 0 1 0 0 0 1 6378137 4]
    define_tmprojection_ellipsoid
      [of "nztm_projection statics_at_start" "Finite 6378137" "Finite 0" 0 1 0 0 0 1 6378137 0]
  by (auto simp add: Let_def)

section \<open>The meridional arc\<close>

lemma meridian_arc_Finite:
  "a tm = Finite av \<Longrightarrow> e2 tm = Finite ev \<Longrightarrow>
   meridian_arc tm (Finite x) = Finite (arcLength av ev x)"
  by (simp add: meridian_arc_def arcLength_def Let_def finite_arith power2_eq_square mult.assoc)

text \<open>
  Claim C3. For every ellipsoid (semi-major axis \<open>av\<close>, squared eccentricity \<open>ev\<close>) and
  every latitude \<open>x\<close>, negative or beyond a quarter turn as well, \<open>meridian_arc\<close> returns
  the value of the specification's formula \<open>arcLength\<close>. The function has no range check
  and no error result: it is a total function into the doubles.
\<close>

theorem meridian_arc_is_arcLength:
  "meridian_arc (tm\<lparr>a := Finite av, e2 := Finite ev\<rparr>) (Finite x) = Finite (arcLength av ev x)"
  by (rule meridian_arc_Finite) simp_all

section \<open>The foot-point latitude\<close>

lemma foot_point_g_nonzero:
  fixes av fv :: real
  assumes "av \<noteq> 0" "fv \<noteq> 1" "fv \<noteq> 2"
  shows "av * (1 - fv / (2 - fv)) * (1 - fv / (2 - fv) * (fv / (2 - fv)))
           * (1 + 9 * (fv / (2 - fv) * (fv / (2 - fv))) / 4
                + 225 * (fv / (2 - fv) * (fv / (2 - fv)) * (fv / (2 - fv) * (fv / (2 - fv)))) / 64)
         \<noteq> 0"
proof -
  define n where "n = fv / (2 - fv)"
  have n1: "n \<noteq> 1" using assms by (auto simp: n_def field_simps)
  have n2: "n \<noteq> - 1" using assms by (auto simp: n_def field_simps)
  have "n * n \<noteq> 1" using n1 n2 by (metis square_eq_1_iff)
  moreover have "0 < 1 + 9 * (n * n) / 4 + 225 * (n * n * (n * n)) / 64"
    by (intro add_pos_nonneg) simp_all
  ultimately show ?thesis using assms n1 unfolding n_def [symmetric] by simp
qed

lemma foot_point_lat_Finite:
  assumes "a tm = Finite av" "f tm = Finite fv" "av \<noteq> 0" "fv \<noteq> 1" "fv \<noteq> 2"
  shows "foot_point_lat tm (Finite mv) = Finite (footPointLatitude av fv mv)"
  using assms foot_point_g_nonzero [OF assms(3-5)]
  by (simp add: foot_point_lat_def footPointLatitude_def Let_def finite_arith power2_eq_square
      power3_eq_cube power4_eq_xxxx mult.assoc)

text \<open>
  Claim C4. For every ellipsoid (semi-major axis \<open>av\<close> not zero, flattening \<open>fv\<close> other than
  1 and 2, so that neither \<open>n = f / (2 - f)\<close> nor \<open>\<sigma> = m / g\<close> divides by zero) and every
  arc length \<open>mv\<close>, \<open>foot_point_lat\<close> returns the value of the specification's truncated
  series \<open>footPointLatitude\<close>. The function is one closed expression: it has no loop and
  no test of convergence.
\<close>

theorem foot_point_lat_is_series:
  "av \<noteq> 0 \<Longrightarrow> fv \<noteq> 1 \<Longrightarrow> fv \<noteq> 2 \<Longrightarrow>
   foot_point_lat (tm\<lparr>a := Finite av, f := Finite fv\<rparr>) (Finite mv)
     = Finite (footPointLatitude av fv mv)"
  by (rule foot_point_lat_Finite) simp_all

theorem foot_point_lat_is_series_witness:
  "(6378137 :: real) \<noteq> 0 \<and> (1 / 4 :: real) \<noteq> 1 \<and> (1 / 4 :: real) \<noteq> 2
   \<and> foot_point_lat (nztm_projection statics_at_start\<lparr>a := Finite 6378137, f := Finite (1 / 4)\<rparr>)
         (Finite 0) = Finite 0"
  using foot_point_lat_is_series [of 6378137 "1 / 4" "nztm_projection statics_at_start" 0]
  by (simp add: footPointLatitude_def)

section \<open>The two loops of \<open>geod_tm\<close>\<close>

text \<open>A loop is left as soon as its test fails. A turn that does not change \<open>dlon\<close> is
  followed by the same turn again: the loop never ends. That is the case of an infinity,
  and of a number so large that the nearest double to \<open>dlon - TWOPI\<close> is \<open>dlon\<close>.\<close>

lemma geod_tm_while1_exit: "\<not> PI < d \<Longrightarrow> geod_tm_while1 d = Some d"
  by (subst geod_tm_while1.simps) simp


lemma geod_tm_while2_exit: "\<not> d < - PI \<Longrightarrow> geod_tm_while2 d = Some d"
  by (subst geod_tm_while2.simps) simp

lemma geod_tm_while2_turn: "d < - PI \<Longrightarrow> geod_tm_while2 d = geod_tm_while2 (rounded (d + TWOPI))"
  by (subst geod_tm_while2.simps) simp

lemma geod_tm_while1_stall:
  assumes "PI < d" "rounded (d - TWOPI) = d"
  shows "geod_tm_while1 d = None"
proof -
  have "x \<noteq> d" if "geod_tm_while1 x = Some y" for x y
  proof (rule geod_tm_while1.raw_induct [where P = "\<lambda>x y. x \<noteq> d", OF _ that])
    fix w :: "double \<Rightarrow> double option" and dlon y
    assume IH: "\<And>dlon y. w dlon = Some y \<Longrightarrow> dlon \<noteq> d"
      and step: "(if dlon > PI then w (rounded (dlon - TWOPI)) else Some dlon) = Some y"
    show "dlon \<noteq> d"
    proof
      assume "dlon = d"
      with step assms have "w d = Some y" by simp
      from IH [OF this] show False by simp
    qed
  qed
  then show ?thesis by (cases "geod_tm_while1 d") auto
qed

lemma geod_tm_while2_stall:
  assumes "d < - PI" "rounded (d + TWOPI) = d"
  shows "geod_tm_while2 d = None"
proof -
  have "x \<noteq> d" if "geod_tm_while2 x = Some y" for x y
  proof (rule geod_tm_while2.raw_induct [where P = "\<lambda>x y. x \<noteq> d", OF _ that])
    fix w :: "double \<Rightarrow> double option" and dlon y
    assume IH: "\<And>dlon y. w dlon = Some y \<Longrightarrow> dlon \<noteq> d"
      and step: "(if dlon < - PI then w (rounded (dlon + TWOPI)) else Some dlon) = Some y"
    show "dlon \<noteq> d"
    proof
      assume "dlon = d"
      with step assms have "w d = Some y" by simp
      from IH [OF this] show False by simp
    qed
  qed
  then show ?thesis by (cases "geod_tm_while2 d") auto
qed

lemma geod_tm_while1_PInf: "geod_tm_while1 PInf = None"
  by (rule geod_tm_while1_stall) (simp_all add: PI_value TWOPI_def finite_arith minus_double_def)

lemma geod_tm_while2_MInf: "geod_tm_while2 MInf = None"
  by (rule geod_tm_while2_stall) (simp_all add: PI_value TWOPI_def finite_arith)




lemma geod_tm_dlon_Finite:
  assumes "meridian tm = Finite c"
  shows "geod_tm_dlon tm (Finite l)
           = (case geod_tm_while1 (binary64 (l - c)) of
                None \<Rightarrow> None | Some d \<Rightarrow> geod_tm_while2 d)"
  using assms by (simp add: geod_tm_dlon_def minus_Finite)


lemma geod_tm_dlon_in_range:
  assumes "meridian tm = Finite c" "binary64 (l - c) = Finite x" "- val PI \<le> x" "x \<le> val PI"
  shows "geod_tm_dlon tm (Finite l) = Some (Finite x)"
proof -
  have 1: "geod_tm_while1 (Finite x) = Some (Finite x)"
    using assms(4) by (intro geod_tm_while1_exit) (simp add: PI_value)
  have 2: "geod_tm_while2 (Finite x) = Some (Finite x)"
    using assms(3) by (intro geod_tm_while2_exit) (simp add: PI_value)
  show ?thesis
    by (simp add: geod_tm_dlon_Finite [OF assms(1)] assms(2) 1 2)
qed

text \<open>A turn of a loop is exact as long as \<open>dlon\<close> is below 64 in magnitude: such a
  double above \<open>PI\<close> is a multiple of \<open>pow2 (e - 52)\<close> for its exponent \<open>e\<close>, between 1
  and 5, and so is \<open>TWOPI\<close>, a multiple of \<open>pow2 (- 47)\<close>; their difference is smaller
  than \<open>pow2 (e + 1)\<close>, and so a double.\<close>

lemma binary64_uminus: "binary64 (- x) = - binary64 x"
  using pow2_pos [of 1024] by (auto simp add: binary64_def Let_def nearest_uminus)

lemma binary64_FiniteD: "binary64 z = Finite x \<Longrightarrow> x = nearest z"
  by (simp add: binary64_def Let_def split: if_splits)

lemma val_TWOPI_grid: "val TWOPI = of_int 884279719003557 * pow2 (- 47)"
  by (simp add: val_TWOPI val_PI pow2_def)

lemma turn_down_exact:
  assumes "binary64 z = Finite x" "val PI < x" "x < 64"
  shows "binary64 (x - val TWOPI) = Finite (x - val TWOPI)"
proof -
  define e where "e = exponent z"
  define u where "u = pow2 (e - 52)"
  have x: "x = nearest z" using assms(1) by (rule binary64_FiniteD)
  from assms(2) have x2: "2 < x" by (simp add: val_PI)
  have z: "0 < z"
  proof (rule ccontr)
    assume "\<not> 0 < z"
    then have "nearest z \<le> nearest 0" by (intro nearest_mono) simp
    with x x2 show False by (simp add: nearest_zero)
  qed
  have up: "x \<le> pow2 (e + 1)"
    unfolding x e_def using z by (rule nearest_le_pow2)
  have "pow2 1 < pow2 (e + 1)"
    using up x2 by (simp add: pow2_def [of 1])
  then have "\<not> e + 1 \<le> 1"
    using pow2_mono [of "e + 1" 1] by auto
  then have e1: "1 \<le> e" by simp
  have e5: "e \<le> 5"
  proof (rule ccontr)
    assume "\<not> e \<le> 5"
    then have 6: "6 \<le> e" by simp
    then have "- 1022 < exponent z" by (simp add: e_def)
    with z have "pow2 (exponent z) \<le> nearest z" by (rule nearest_ge_pow2)
    moreover have "pow2 6 \<le> pow2 e" using 6 by (rule pow2_mono)
    ultimately have "64 \<le> x" by (simp add: x e_def pow2_def [of 6])
    with assms(3) show False by simp
  qed
  define r where "r = round_to_even (z / u)"
  have r: "x = of_int r * u"
    using z by (simp add: x nearest_def Let_def u_def e_def r_def)
  have "pow2 (- 47) = pow2 ((5 - e) + (e - 52))"
    by (rule arg_cong [where f = pow2]) simp
  also have "\<dots> = pow2 (5 - e) * u" unfolding u_def by (rule pow2_add)
  also have "pow2 (5 - e) = of_int (2 ^ nat (5 - e))"
    using e5 by (intro pow2_of_nat) simp
  finally have "val TWOPI = of_int (884279719003557 * 2 ^ nat (5 - e)) * u"
    by (simp add: val_TWOPI_grid)
  with r have g: "x - val TWOPI = of_int (r - 884279719003557 * 2 ^ nat (5 - e)) * pow2 (e - 52)"
    by (simp add: left_diff_distrib u_def)
  have "pow2 2 \<le> pow2 (e + 1)" using e1 by (intro pow2_mono) simp
  then have "4 \<le> pow2 (e + 1)" by (simp add: pow2_def [of 2])
  moreover have "val PI < 4" "0 < val TWOPI" by (simp_all add: val_TWOPI val_PI)
  ultimately have "\<bar>x - val TWOPI\<bar> < pow2 (e + 1)"
    using up assms(2) by (simp add: abs_less_iff val_TWOPI)
  also have "pow2 (e + 1) = pow2 (e - 52 + 53)"
    by (rule arg_cong [where f = pow2]) simp
  finally show ?thesis
    using e1 e5 by (intro binary64_exact [OF g]) simp_all
qed

lemma turn_up_exact:
  assumes "binary64 z = Finite x" "- 64 < x" "x < - val PI"
  shows "binary64 (x + val TWOPI) = Finite (x + val TWOPI)"
proof -
  have "binary64 (- z) = Finite (- x)" using assms(1) by (simp add: binary64_uminus)
  from turn_down_exact [OF this] assms(2,3)
  have "binary64 (- x - val TWOPI) = Finite (- x - val TWOPI)" by simp
  then have "binary64 (- (x + val TWOPI)) = Finite (- (x + val TWOPI))" by simp
  then have "- binary64 (x + val TWOPI) = - Finite (x + val TWOPI)"
    by (simp only: binary64_uminus uminus_double.simps)
  then show ?thesis
    by (cases "binary64 (x + val TWOPI)") simp_all
qed


lemma geod_tm_dlon_turn_up:
  assumes "meridian tm = Finite c" "binary64 (l - c) = Finite x"
    "- (3 * val PI) \<le> x" "x < - val PI"
  shows "geod_tm_dlon tm (Finite l) = Some (Finite (x + val TWOPI))"
proof -
  have "rounded (Finite x + TWOPI) = binary64 (x + val TWOPI)"
    by (subst TWOPI_Finite) simp
  moreover have "- 64 < x" using assms(3) by (simp add: val_PI)
  ultimately have r: "rounded (Finite x + TWOPI) = Finite (x + val TWOPI)"
    by (simp only: turn_up_exact [OF assms(2) _ assms(4)])
  have 1: "geod_tm_while1 (Finite x) = Some (Finite x)"
    using assms(4) val_PI_pos by (intro geod_tm_while1_exit) (simp add: PI_value)
  have "geod_tm_while2 (Finite x) = geod_tm_while2 (rounded (Finite x + TWOPI))"
    using assms(4) by (intro geod_tm_while2_turn) (simp add: PI_value)
  also have "\<dots> = Some (Finite (x + val TWOPI))"
    unfolding r using assms(3) by (intro geod_tm_while2_exit) (simp add: PI_value val_TWOPI)
  finally have 2: "geod_tm_while2 (Finite x) = Some (Finite (x + val TWOPI))" .
  show ?thesis
    by (simp add: geod_tm_dlon_Finite [OF assms(1)] assms(2) 1 2)
qed




text \<open>
  Claim C8 fails on the code: with the longitude \<open>+\<infinity>\<close>, \<open>dlon\<close> is \<open>+\<infinity>\<close>, the test
  \<^verbatim>\<open>dlon > PI\<close> holds and \<^verbatim>\<open>dlon -= TWOPI\<close> leaves \<open>+\<infinity>\<close>: the first loop never ends, and
  \<open>geod_nztm\<close> does not return. (\<open>tm_geod\<close> has no loop.)
\<close>

theorem geod_nztm_infinite_longitude:
  "geod_nztm statics_at_start (Finite 0) PInf = None"
proof -
  let ?P = "nztm_projection (get_nztm_projection statics_at_start)"
  have "rounded (PInf - meridian ?P) = PInf"
    by (simp add: nztm_projection_fields minus_double_def)
  then have "geod_tm_dlon ?P PInf = None"
    by (simp add: geod_tm_dlon_def Let_def geod_tm_while1_PInf)
  then have "geod_tm ?P PInf (Finite 0) = None"
    by (simp add: geod_tm_def)
  then show ?thesis by (simp add: geod_nztm_def Let_def)
qed

text \<open>The same happens on a number: the doubles around \<open>2 ^ 60\<close> are 128 or 256 apart,
  the nearest double to \<open>2 ^ 60 - TWOPI\<close> is \<open>2 ^ 60\<close>, and a turn of the first loop
  changes nothing.\<close>

lemma binary64_absorb:
  assumes "0 < t" "t < 64"
  shows "binary64 (2 ^ 60 - t) = Finite (2 ^ 60)"
proof -
  have "nearest (2 ^ 60 - t) = of_int (2 ^ 53) * pow2 (59 - 52)"
  proof (rule nearest_eval)
    show "pow2 59 \<le> \<bar>2 ^ 60 - t\<bar>" using assms by (simp add: pow2_def)
    show "\<bar>2 ^ 60 - t\<bar> < pow2 (59 + 1)" using assms by (simp add: pow2_def)
    show "\<bar>(2 ^ 60 - t) / pow2 (59 - 52) - of_int (2 ^ 53)\<bar> < 1 / 2"
      using assms by (simp add: pow2_def field_simps)
  qed simp
  then have n: "nearest (2 ^ 60 - t) = 2 ^ 60" by (simp add: pow2_def)
  have "\<bar>2 ^ 60 :: real\<bar> < pow2 61" by (simp add: pow2_def)
  also have "pow2 61 \<le> pow2 1024" by (rule pow2_mono) simp
  finally have "\<bar>nearest (2 ^ 60 - t)\<bar> < pow2 1024" by (simp only: n)
  from binary64_Finite [OF this] show ?thesis by (simp only: n)
qed

lemma geod_nztm_huge_longitude:
  "geod_nztm statics_at_start (Finite 0) (Finite (2 ^ 60)) = None"
proof -
  let ?P = "nztm_projection (get_nztm_projection statics_at_start)"
  have m: "meridian ?P = Finite (173 / (180 / (884279719003557 / 2 ^ 48)))"
    by (rule nztm_projection_fields)
  have 1: "binary64 (2 ^ 60 - 173 / (180 / (884279719003557 / 2 ^ 48))) = Finite (2 ^ 60)"
    by (rule binary64_absorb) simp_all
  have "binary64 (2 ^ 60 - val TWOPI) = Finite (2 ^ 60)"
    by (rule binary64_absorb) (simp_all add: val_TWOPI val_PI)
  then have 2: "rounded (Finite (2 ^ 60) - TWOPI) = Finite (2 ^ 60)"
    by (subst TWOPI_Finite) (simp add: minus_Finite)
  have w: "geod_tm_while1 (Finite (2 ^ 60)) = None"
    by (rule geod_tm_while1_stall [OF _ 2]) (simp add: PI_value)
  have "geod_tm_dlon ?P (Finite (2 ^ 60)) = None"
    unfolding geod_tm_dlon_Finite [OF m] 1 w by simp
  then have "geod_tm ?P (Finite (2 ^ 60)) (Finite 0) = None"
    by (simp add: geod_tm_def)
  then show ?thesis by (simp add: geod_nztm_def Let_def)
qed

section \<open>The forward projection on the central meridian\<close>

lemma eslt_pos:
  fixes ev x :: real
  assumes "ev < 1"
  shows "0 < 1 - ev * sin x * sin x"
proof -
  have s: "sin x * sin x \<le> 1"
    using sin_squared_eq [of x] zero_le_power2 [of "cos x"] by (simp add: power2_eq_square)
  have s0: "0 \<le> sin x * sin x" by simp
  show ?thesis
  proof (cases "0 \<le> ev")
    case True
    then have "ev * (sin x * sin x) \<le> ev * 1"
      using s by (intro mult_left_mono)
    then show ?thesis using assms by (simp add: mult.assoc)
  next
    case False
    then have "ev * (sin x * sin x) \<le> 0"
      using s0 by (simp add: mult_nonpos_nonneg)
    then show ?thesis by (simp add: mult.assoc)
  qed
qed

lemma geod_tm_rest_zero:
  assumes "a tm = Finite av" "av \<noteq> 0" "e2 tm = Finite ev" "ev < 1"
    and "scalef tm = Finite s" "utom tm = Finite u" "u \<noteq> 0" "om tm = Finite ov"
    and "cos x \<noteq> 0"
  shows "geod_tm_rest tm (Finite 0) (Finite x)
           = (falsee tm, Finite ((arcLength av ev x - ov) * s / u) + falsen tm)"
proof -
  have es: "0 < 1 - ev * sin x * sin x" by (rule eslt_pos [OF assms(4)])
  then have es0: "1 - ev * sin x * sin x \<noteq> 0" "\<not> 1 - ev * sin x * sin x < 0"
    "sqrt (1 - ev * sin x * sin x) \<noteq> 0"
    by simp_all
  have ev1: "1 - ev \<noteq> 0" using assms(4) by simp
  show ?thesis
    using assms es0 ev1
    by (simp add: geod_tm_rest_def Let_def finite_arith meridian_arc_Finite [OF assms(1,3)]
        Finite_zero_plus)
qed

lemma geod_tm_dlon_meridian:
  assumes "is_finite (meridian tm)"
  shows "geod_tm_dlon tm (meridian tm) = Some (Finite 0)"
proof -
  have c: "meridian tm = Finite (val (meridian tm))"
    using assms by (rule is_finite_val)
  have "binary64 (val (meridian tm) - val (meridian tm)) = Finite 0"
    by (simp add: binary64_zero)
  from geod_tm_dlon_in_range [OF c this] val_PI_pos
  have "geod_tm_dlon tm (Finite (val (meridian tm))) = Some (Finite 0)"
    by simp
  with c show ?thesis by simp
qed

lemma geod_tm_central_meridian:
  assumes "projection tm" "val (utom tm) \<noteq> 0" "cos x \<noteq> 0"
  shows "geod_tm tm (meridian tm) (Finite x)
           = Some (falsee tm,
               Finite ((arcLength (val (a tm)) (val (e2 tm)) x - val (om tm))
                         * val (scalef tm) / val (utom tm)) + falsen tm)"
proof -
  from assms(1) have fin: "a tm = Finite (val (a tm))" "e2 tm = Finite (val (e2 tm))"
    "scalef tm = Finite (val (scalef tm))" "utom tm = Finite (val (utom tm))"
    "orglat tm = Finite (val (orglat tm))"
    and ne: "val (a tm) \<noteq> 0" "val (e2 tm) < 1"
    and cache: "om tm = meridian_arc tm (orglat tm)"
    and cm: "is_finite (meridian tm)"
    by (simp_all add: projection_def is_finite_val)
  have "om tm = Finite (arcLength (val (a tm)) (val (e2 tm)) (val (orglat tm)))"
    using meridian_arc_Finite [OF fin(1,2), of "val (orglat tm)"] fin(5) cache by simp
  then have om: "om tm = Finite (val (om tm))" by simp
  show ?thesis
    by (simp add: geod_tm_def geod_tm_dlon_meridian [OF cm]
        geod_tm_rest_zero [OF fin(1) ne(1) fin(2) ne(2) fin(3,4) assms(2) om assms(3)])
qed

text \<open>
  Claim C10. For every projection whose unit-to-metre factor is not zero and every
  latitude \<open>x\<close> whose cosine is not zero, \<open>geod_tm\<close> at the central meridian returns and
  its easting is the false easting, whatever the latitude: \<open>dlon\<close> is 0 there and is a
  factor of the whole easting term.
\<close>

theorem geod_tm_easting_on_central_meridian:
  "projection tm \<Longrightarrow> val (utom tm) \<noteq> 0 \<Longrightarrow> cos x \<noteq> 0 \<Longrightarrow>
   map_option fst (geod_tm tm (meridian tm) (Finite x)) = Some (falsee tm)"
  by (simp add: geod_tm_central_meridian)

theorem geod_tm_easting_on_central_meridian_witness:
  "projection (nztm_projection (get_nztm_projection statics_at_start))
   \<and> val (utom (nztm_projection (get_nztm_projection statics_at_start))) \<noteq> 0
   \<and> cos (- (1 / 2) :: real) \<noteq> 0
   \<and> map_option fst
         (geod_tm (nztm_projection (get_nztm_projection statics_at_start))
            (meridian (nztm_projection (get_nztm_projection statics_at_start))) (Finite (- (1 / 2))))
       = Some (Finite 1600000)"
proof -
  have "0 < cos (- (1 / 2) :: real)"
    by (rule cos_gt_zero_pi) (use pi_ge_two in linarith)+
  then have c: "cos (- (1 / 2) :: real) \<noteq> 0" by simp
  show ?thesis
    using geod_tm_easting_on_central_meridian
      [of "nztm_projection (get_nztm_projection statics_at_start)" "- (1 / 2)"] c
    by (simp add: projection_nztm nztm_projection_fields)
qed

text \<open>
  Claim C2, as stated, fails: for the unit sphere with unit-to-metre factor 0, a
  projection, the easting and the northing at the origin latitude and the central
  meridian are both \<open>0 / 0\<close>, not the false easting and northing, which are 0.
\<close>

theorem geod_tm_origin_utom0_counterexample:
  "projection sphere_utom0
   \<and> geod_tm sphere_utom0 (meridian sphere_utom0) (orglat sphere_utom0) = Some (NaN, NaN)
   \<and> falsee sphere_utom0 = Finite 0 \<and> falsen sphere_utom0 = Finite 0"
proof -
  have "geod_tm_dlon sphere_utom0 (Finite 0) = Some (Finite 0)"
    using geod_tm_dlon_meridian [of sphere_utom0] by (simp add: sphere_utom0_fields)
  then have "geod_tm sphere_utom0 (Finite 0) (Finite 0) = Some (NaN, NaN)"
    by (simp add: geod_tm_def geod_tm_rest_def Let_def finite_arith sphere_utom0_fields
        meridian_arc_def)
  then show ?thesis
    by (simp add: projection_sphere_utom0 sphere_utom0_fields)
qed

text \<open>
  Claim C2, amended. For every projection whose unit-to-metre factor is not zero and
  whose origin latitude has a cosine other than zero, \<open>geod_tm\<close> at the origin latitude
  and the central meridian returns exactly the false easting and the false northing (in
  exact arithmetic): with \<open>dlon = 0\<close> both correction terms vanish, and the meridional arc
  equals the stored \<open>om\<close>.
\<close>

theorem geod_tm_origin_fixed_point:
  assumes "projection tm" "val (utom tm) \<noteq> 0" "cos (val (orglat tm)) \<noteq> 0"
  shows "geod_tm tm (meridian tm) (orglat tm) = Some (falsee tm, falsen tm)"
proof -
  from assms(1) have fin: "a tm = Finite (val (a tm))" "e2 tm = Finite (val (e2 tm))"
    "orglat tm = Finite (val (orglat tm))"
    and cache: "om tm = meridian_arc tm (orglat tm)"
    by (simp_all add: projection_def is_finite_val)
  have om: "val (om tm) = arcLength (val (a tm)) (val (e2 tm)) (val (orglat tm))"
    using meridian_arc_Finite [OF fin(1,2), of "val (orglat tm)"] fin(3) cache by simp
  have "geod_tm tm (meridian tm) (Finite (val (orglat tm))) = Some (falsee tm, falsen tm)"
    by (simp add: geod_tm_central_meridian [OF assms] om Finite_zero_plus)
  with fin(3) show ?thesis by simp
qed

theorem geod_tm_origin_fixed_point_witness:
  "projection (nztm_projection (get_nztm_projection statics_at_start))
   \<and> val (utom (nztm_projection (get_nztm_projection statics_at_start))) \<noteq> 0
   \<and> cos (val (orglat (nztm_projection (get_nztm_projection statics_at_start)))) \<noteq> 0
   \<and> geod_tm (nztm_projection (get_nztm_projection statics_at_start))
         (meridian (nztm_projection (get_nztm_projection statics_at_start))) (Finite 0)
       = Some (Finite 1600000, Finite 10000000)"
  using geod_tm_origin_fixed_point [of "nztm_projection (get_nztm_projection statics_at_start)"]
  by (simp add: projection_nztm nztm_projection_fields)

section \<open>Longitude wraparound\<close>









section \<open>The NZTM preset\<close>

lemma get_nztm_projection_initiallized:
  "initiallized s \<noteq> 0 \<Longrightarrow> get_nztm_projection s = s"
  by (simp add: get_nztm_projection_def)

lemma initiallized_get_nztm_projection:
  "initiallized (get_nztm_projection s) \<noteq> 0"
  by (simp add: get_nztm_projection_def Let_def)

lemma get_nztm_projection_twice:
  "get_nztm_projection (get_nztm_projection s) = get_nztm_projection s"
  by (rule get_nztm_projection_initiallized) (rule initiallized_get_nztm_projection)

lemma calls_initiallized:
  "initiallized s \<noteq> 0 \<Longrightarrow> calls n s = s"
  by (induction n) (simp_all add: get_nztm_projection_initiallized)

lemma calls_Suc:
  "calls (Suc n) s = get_nztm_projection s"
  by (simp add: calls_initiallized [OF initiallized_get_nztm_projection])

lemma define_tmprojection_any:
  "define_tmprojection tm av r cm sf lto fe fn ut = define_tmprojection tm' av r cm sf lto fe fn ut"
  by (cases tm; cases tm') (simp add: define_tmprojection_def Let_def meridian_arc_def)

text \<open>A conversion calls \<open>get_nztm_projection\<close> once and touches the statics in no other
  way: it leaves them as that call leaves them.\<close>

lemma nztm_geod_statics: "fst (nztm_geod s n e) = get_nztm_projection s"
  by (simp add: nztm_geod_def Let_def split_def)

lemma geod_nztm_statics:
  "geod_nztm s lt ln_in = Some (s', r) \<Longrightarrow> s' = get_nztm_projection s"
  by (auto simp add: geod_nztm_def Let_def split: option.splits)

text \<open>
  Claim C9. From the start of the program, after any number \<open>n > 0\<close> of calls of
  \<open>get_nztm_projection\<close> the branch that calls \<open>define_tmprojection\<close> has been taken
  exactly once, the flag \<open>initiallized\<close> is 1, and the statics are those left by the first
  call. A further call changes nothing, and not only because it would build the same
  values again: it leaves the structure alone whatever the structure holds. The structure
  is the value \<open>define_tmprojection\<close> gives for the NZTM constants whatever the structure
  held before, so that building it again would give the same values.
\<close>

theorem nztm_projection_constructed_once:
  "0 < n \<Longrightarrow>
   (let s = calls n statics_at_start
    in constructions s = 1 \<and> initiallized s = 1
       \<and> s = get_nztm_projection statics_at_start
       \<and> (\<forall>p. get_nztm_projection (s\<lparr>nztm_projection := p\<rparr>) = s\<lparr>nztm_projection := p\<rparr>)
       \<and> nztm_projection s
           = define_tmprojection tm NZTM_A NZTM_RF (NZTM_CM / rad2deg) NZTM_SF
               (NZTM_OLAT / rad2deg) NZTM_FE NZTM_FN 1)"
proof -
  assume "0 < n"
  then obtain m where n: "n = Suc m" by (cases n) simp_all
  have s: "calls n statics_at_start = get_nztm_projection statics_at_start"
    by (simp only: n calls_Suc)
  have p: "nztm_projection (get_nztm_projection statics_at_start)
             = define_tmprojection tm NZTM_A NZTM_RF (NZTM_CM / rad2deg) NZTM_SF
                 (NZTM_OLAT / rad2deg) NZTM_FE NZTM_FN 1"
    by (simp add: get_nztm_projection_def statics_at_start_def Let_def)
       (rule define_tmprojection_any)
  have i: "initiallized (get_nztm_projection statics_at_start) = 1"
    by (simp add: get_nztm_projection_def statics_at_start_def Let_def)
  have c: "constructions (get_nztm_projection statics_at_start) = 1"
    by (simp add: get_nztm_projection_def statics_at_start_def Let_def)
  have k: "get_nztm_projection ((get_nztm_projection statics_at_start)\<lparr>nztm_projection := q\<rparr>)
             = (get_nztm_projection statics_at_start)\<lparr>nztm_projection := q\<rparr>" for q
    by (rule get_nztm_projection_initiallized) (simp add: i)
  show ?thesis
    unfolding s Let_def using i c k p by simp
qed

theorem nztm_projection_constructed_once_witness:
  "(0 :: nat) < 3 \<and> constructions (calls 3 statics_at_start) = 1
   \<and> initiallized (calls 3 statics_at_start) = 1
   \<and> calls 3 statics_at_start = get_nztm_projection statics_at_start
   \<and> get_nztm_projection
        ((calls 3 statics_at_start)\<lparr>nztm_projection := (nztm_projection statics_at_start)\<lparr>a := 42\<rparr>\<rparr>)
       = (calls 3 statics_at_start)\<lparr>nztm_projection := (nztm_projection statics_at_start)\<lparr>a := 42\<rparr>\<rparr>"
  using nztm_projection_constructed_once [of 3 "nztm_projection statics_at_start"]
  by (auto simp add: Let_def)

section \<open>The round trip\<close>

text \<open>How close \<open>tm_geod\<close> brings back what \<open>geod_tm\<close> was given depends on the
  projection. On the flat ellipsoid, at latitude 0 and at the longitude 1/32 from the
  central meridian, everything the two functions compute is a rational number: the
  longitude comes back more than \<open>1 / 10 ^ 8\<close> away, by the truncation of the two
  series alone. With the unit-to-metre factor 0, \<open>geod_tm\<close> gives \<open>NaN\<close> twice, and so
  does \<open>tm_geod\<close> from there.\<close>

lemma flat_ellipsoid_fields:
  "meridian flat_ellipsoid = Finite 0" "scalef flat_ellipsoid = Finite 1"
  "orglat flat_ellipsoid = Finite 0" "falsee flat_ellipsoid = Finite 0"
  "falsen flat_ellipsoid = Finite 0" "utom flat_ellipsoid = Finite 1"
  "a flat_ellipsoid = Finite 1" "f flat_ellipsoid = Finite (4 / 5)"
  "e2 flat_ellipsoid = Finite (24 / 25)" "om flat_ellipsoid = Finite 0"
  by (simp_all add: flat_ellipsoid_def define_tmprojection_def Let_def finite_arith dne_Finite
      meridian_arc_def)

lemma projection_flat_ellipsoid: "projection flat_ellipsoid"
  by (simp add: projection_def flat_ellipsoid_fields meridian_arc_def Let_def finite_arith)

lemma geod_tm_flat_ellipsoid:
  "geod_tm flat_ellipsoid (Finite (1 / 32)) (Finite 0)
     = Some (Finite (5436393769021 / 173173081374720), Finite 0)"
proof -
  have "binary64 (1 / 32) = Finite (1 / 32)"
    by (rule binary64_exact [where N = 1 and k = "- 5"]) (simp_all add: pow2_def)
  then have b: "binary64 (1 / 32 - 0) = Finite (1 / 32)" by simp
  have d: "geod_tm_dlon flat_ellipsoid (Finite (1 / 32)) = Some (Finite (1 / 32))"
    by (rule geod_tm_dlon_in_range [OF flat_ellipsoid_fields(1) b]) (simp_all add: val_PI)
  show ?thesis
    by (simp add: geod_tm_def d geod_tm_rest_def Let_def finite_arith flat_ellipsoid_fields
        meridian_arc_def)
qed

lemma tm_geod_flat_ellipsoid:
  "is_finite (fst (tm_geod flat_ellipsoid (Finite (5436393769021 / 173173081374720)) (Finite 0)))"
  "1 / 10 ^ 8
     < \<bar>val (fst (tm_geod flat_ellipsoid (Finite (5436393769021 / 173173081374720)) (Finite 0)))
          - 1 / 32\<bar>"
  "snd (tm_geod flat_ellipsoid (Finite (5436393769021 / 173173081374720)) (Finite 0)) = Finite 0"
  by (simp_all add: tm_geod_def foot_point_lat_def Let_def finite_arith flat_ellipsoid_fields)

lemma round_trip_sphere_utom0:
  "geod_tm sphere_utom0 (Finite 0) (Finite 0) = Some (NaN, NaN)"
  "tm_geod sphere_utom0 NaN NaN = (NaN, NaN)"
proof -
  have "geod_tm_dlon sphere_utom0 (Finite 0) = Some (Finite 0)"
    using geod_tm_dlon_meridian [of sphere_utom0] by (simp add: sphere_utom0_fields)
  then show "geod_tm sphere_utom0 (Finite 0) (Finite 0) = Some (NaN, NaN)"
    by (simp add: geod_tm_def geod_tm_rest_def Let_def finite_arith sphere_utom0_fields
        meridian_arc_def)
  show "tm_geod sphere_utom0 NaN NaN = (NaN, NaN)"
    by (simp add: tm_geod_def foot_point_lat_def Let_def finite_arith sphere_utom0_fields
        minus_double_def)
qed

end
